theory Spec2Isabelle
  imports Main "HOL-Library.Char_ord" "HOL-Library.List_Lexorder"
begin

section \<open>Python values and exceptions\<close>

text \<open>
  The values that travel through the program: JSON-shaped Python objects. A \<open>dict\<close> is an
  association list in insertion order (Python dicts keep it); its keys are distinct.
  \<open>bytes\<close> objects are modelled as \<open>string\<close> too, one \<open>char\<close> per byte.
\<close>

datatype pyval =
    PNone
  | PBool bool
  | PInt int
  | PStr string
  | PList "pyval list"
  | PDict "(string \<times> pyval) list"

type_synonym pydict = "(string \<times> pyval) list"

text \<open>
  An exception is its class and its message (\<open>str(e)\<close>). Only the classes that some
  \<open>except\<close> clause of the program tells apart are named; every other class is
  \<open>OtherError\<close>. All of them derive from \<open>Exception\<close>.
\<close>

datatype exn_class =
    InvalidID | InvalidPipe | JSONDecodeError | BlockingIOError | AttributeError | OtherError

datatype exn = Exn exn_class string

fun exn_class_of :: "exn \<Rightarrow> exn_class" where
  "exn_class_of (Exn c m) = c"

fun str_of_exn :: "exn \<Rightarrow> string" where
  "str_of_exn (Exn c m) = m"

text \<open>Truth value testing (\<open>if x:\<close>).\<close>

fun truthy :: "pyval \<Rightarrow> bool" where
  "truthy PNone = False"
| "truthy (PBool b) = b"
| "truthy (PInt n) = (n \<noteq> 0)"
| "truthy (PStr s) = (s \<noteq> [])"
| "truthy (PList xs) = (xs \<noteq> [])"
| "truthy (PDict kvs) = (kvs \<noteq> [])"

text \<open>\<open>d.get(k)\<close> on a dict: the value, or \<open>None\<close> when the key is absent.\<close>

definition dict_get :: "pydict \<Rightarrow> string \<Rightarrow> pyval" where
  "dict_get d k = (case map_of d k of None \<Rightarrow> PNone | Some v \<Rightarrow> v)"

text \<open>\<open>d[k] = v\<close>: replaces the value in place, or appends a new key.\<close>

fun dict_set :: "pydict \<Rightarrow> string \<Rightarrow> pyval \<Rightarrow> pydict" where
  "dict_set [] k v = [(k, v)]"
| "dict_set ((k', v') # d) k v = (if k' = k then (k, v) # d else (k', v') # dict_set d k v)"

section \<open>The connection supervisor (\<open>core/rpc_manager.py\<close>)\<close>

datatype rpc_status = DISCONNECTED | CONNECTING | CONNECTED | ERROR

text \<open>
  The external client library (\<open>pypresence.Presence\<close>) is an opaque collaborator. Every call
  the manager makes to it is recorded, with its outcome, in the trace \<open>calls\<close>; whether a
  call raises is decided by the environment, a function of the trace so far and the call.
\<close>

datatype presence_call =
    New pyval
  | Connect
  | Update pydict
  | Clear
  | Close

type_synonym trace = "(presence_call \<times> exn option) list"

type_synonym discord = "trace \<Rightarrow> presence_call \<Rightarrow> exn option"

text \<open>
  Logging does not change the state and is left out. The liveness loop runs in a thread of
  its own; the model runs each method and each tick of the loop as one step.

  \<open>client\<close> is \<open>self.client\<close>: \<open>None\<close>, or the \<open>Presence\<close> object, identified by the id it
  was built with. \<open>reconnect_thread\<close> is \<open>None\<close> or the thread object with its \<open>is_alive()\<close>;
  \<open>reconnect_event\<close> is the flag of the \<open>Event\<close>.
\<close>

record rpc_manager =
  client :: "pyval option"
  client_id :: pyval
  status :: rpc_status
  current_activity :: "pydict option"
  reconnect_thread :: "bool option"
  reconnect_event :: bool
  should_reconnect :: bool
  calls :: trace

definition rpc_init :: rpc_manager where
  "rpc_init = \<lparr> client = None, client_id = PNone, status = DISCONNECTED,
                current_activity = None, reconnect_thread = None,
                reconnect_event = False, should_reconnect = False, calls = [] \<rparr>"

text \<open>One call to the library: ask the environment, record call and outcome.\<close>

definition presence_call :: "discord \<Rightarrow> presence_call \<Rightarrow> rpc_manager \<Rightarrow> exn option \<times> rpc_manager" where
  "presence_call d c s = (d (calls s) c, s\<lparr>calls := calls s @ [(c, d (calls s) c)]\<rparr>)"

text \<open>\<open>RPCManager.disconnect\<close>. The \<open>finally\<close> clause runs whether \<open>close()\<close> raised or not.\<close>

definition disconnect :: "discord \<Rightarrow> rpc_manager \<Rightarrow> rpc_manager" where
  "disconnect d s =
     (let s1 = s\<lparr>should_reconnect := False\<rparr>;
          s2 = (if client s1 \<noteq> None
                then (snd (presence_call d Close s1))
                       \<lparr>client := None, status := DISCONNECTED, current_activity := None\<rparr>
                else s1)
      in if reconnect_thread s2 \<noteq> None then s2\<lparr>reconnect_event := True\<rparr> else s2)"

text \<open>
  \<open>RPCManager.connect\<close>. The three \<open>except\<close> clauses differ in the logged text only: each
  sets \<open>ERROR\<close> and returns \<open>False\<close>. When the constructor \<open>Presence(client_id)\<close> raises,
  \<open>self.client\<close> keeps its value; when \<open>connect()\<close> raises, the new object stays in it.
\<close>

definition connect :: "discord \<Rightarrow> pyval \<Rightarrow> rpc_manager \<Rightarrow> bool \<times> rpc_manager" where
  "connect d cid s =
     (if status s = CONNECTED \<and> client_id s = cid then (True, s)
      else
        let s1 = (if client s \<noteq> None then disconnect d s else s);
            s2 = s1\<lparr>status := CONNECTING, client_id := cid\<rparr>
        in case presence_call d (New cid) s2 of
             (Some e, s3) \<Rightarrow> (False, s3\<lparr>status := ERROR\<rparr>)
           | (None, s3) \<Rightarrow>
               (case presence_call d Connect (s3\<lparr>client := Some cid\<rparr>) of
                  (Some e, s4) \<Rightarrow> (False, s4\<lparr>status := ERROR\<rparr>)
                | (None, s4) \<Rightarrow>
                    (let s5 = s4\<lparr>status := CONNECTED, should_reconnect := True\<rparr>
                     in if reconnect_thread s5 \<noteq> Some True
                        then (True, s5\<lparr>reconnect_event := False, reconnect_thread := Some True\<rparr>)
                        else (True, s5))))"

text \<open>
  \<open>RPCManager.update_activity\<close>. \<open>rpc_data\<close> is the dict comprehension that drops the
  \<open>None\<close> values. The result is \<open>Inl e\<close> when the method raises \<open>e\<close> to its caller and
  \<open>Inr b\<close> when it returns \<open>b\<close>: the \<open>except Exception\<close> clause turns a raising
  \<open>client.update\<close> into the return value \<open>False\<close>.
\<close>

definition rpc_data_of :: "pydict \<Rightarrow> pydict" where
  "rpc_data_of activity = filter (\<lambda>(k, v). v \<noteq> PNone) activity"

definition update_activity :: "discord \<Rightarrow> pydict \<Rightarrow> rpc_manager \<Rightarrow> (exn + bool) \<times> rpc_manager" where
  "update_activity d activity s =
     (if client s = None \<or> status s \<noteq> CONNECTED then (Inr False, s)
      else
        case presence_call d (Update (rpc_data_of activity)) s of
          (None, s1) \<Rightarrow> (Inr True, s1\<lparr>current_activity := Some activity\<rparr>)
        | (Some e, s1) \<Rightarrow> (Inr False, s1))"

text \<open>\<open>RPCManager.clear_activity\<close>.\<close>

definition clear_activity :: "discord \<Rightarrow> rpc_manager \<Rightarrow> bool \<times> rpc_manager" where
  "clear_activity d s =
     (if client s = None \<or> status s \<noteq> CONNECTED then (False, s)
      else
        case presence_call d Clear s of
          (None, s1) \<Rightarrow> (True, s1\<lparr>current_activity := None\<rparr>)
        | (Some e, s1) \<Rightarrow> (False, s1))"

text \<open>
  One iteration of the \<open>while\<close> loop of \<open>RPCManager._auto_reconnect_loop\<close>: the liveness
  tick. The \<open>except\<close> clause is the branch for a probe that raises (\<open>Inl e\<close>). The result
  says whether the loop breaks; \<open>Event.wait\<close> returns the flag of the event.
\<close>

definition restore_activity :: "discord \<Rightarrow> rpc_manager \<Rightarrow> rpc_manager" where
  "restore_activity d s =
     (case current_activity s of
        Some a \<Rightarrow> if status s = CONNECTED \<and> a \<noteq> [] then snd (update_activity d a s) else s
      | None \<Rightarrow> s)"

definition reconnect_after_loss :: "discord \<Rightarrow> rpc_manager \<Rightarrow> rpc_manager" where
  "reconnect_after_loss d s =
     (let s1 = s\<lparr>status := DISCONNECTED\<rparr>
      in if truthy (client_id s1)
         then restore_activity d (snd (connect d (client_id s1) s1))
         else s1)"

definition probe :: "discord \<Rightarrow> rpc_manager \<Rightarrow> rpc_manager" where
  "probe d s =
     (if status s = CONNECTED \<and> client s \<noteq> None
      then (case current_activity s of
              Some a \<Rightarrow>
                if a \<noteq> []
                then (case update_activity d a s of
                        (Inr b, s1) \<Rightarrow> s1
                      | (Inl e, s1) \<Rightarrow> reconnect_after_loss d s1)
                else s
            | None \<Rightarrow> s)
      else s)"

definition auto_reconnect_tick :: "discord \<Rightarrow> rpc_manager \<Rightarrow> bool \<times> rpc_manager" where
  "auto_reconnect_tick d s =
     (let s1 = probe d s
      in if reconnect_event s1 then (True, s1\<lparr>reconnect_thread := None\<rparr>) else (False, s1))"

text \<open>
  The loop itself, for at most \<open>n\<close> ticks: it runs while \<open>_should_reconnect\<close> holds and
  no tick breaks.
\<close>

fun auto_reconnect_loop :: "nat \<Rightarrow> discord \<Rightarrow> rpc_manager \<Rightarrow> rpc_manager" where
  "auto_reconnect_loop 0 d s = s"
| "auto_reconnect_loop (Suc n) d s =
     (if should_reconnect s
      then (case auto_reconnect_tick d s of
              (True, s1) \<Rightarrow> s1
            | (False, s1) \<Rightarrow> auto_reconnect_loop n d s1)
      else s)"

section \<open>The profile store (\<open>core/profile_manager.py\<close>)\<close>

text \<open>
  The profiles directory is the list of its \<open>*.json\<close> files in the order \<open>glob\<close> yields
  them, each with its stem (the file name without \<open>.json\<close>). A file is unreadable (it cannot
  be opened or is not JSON), or it holds a profile: its \<open>name\<close> entry, a string when
  present, and its other entries. Text is ASCII.
\<close>

datatype profile_file = Unreadable | Profile "string option" pydict

type_synonym profiles_dir = "(string \<times> profile_file) list"

text \<open>The dict that \<open>json.load\<close> returns for a profile file.\<close>

definition profile_data :: "string option \<Rightarrow> pydict \<Rightarrow> pydict" where
  "profile_data nm rest =
     (case nm of None \<Rightarrow> [] | Some n \<Rightarrow> [(''name'', PStr n)]) @ filter (\<lambda>(k, v). k \<noteq> ''name'') rest"

definition isalnum :: "char \<Rightarrow> bool" where
  "isalnum c =
     (let n = (of_char c :: nat)
      in (48 \<le> n \<and> n \<le> 57) \<or> (65 \<le> n \<and> n \<le> 90) \<or> (97 \<le> n \<and> n \<le> 122))"

text \<open>\<open>str.strip()\<close> on a string whose only whitespace is the space character.\<close>

definition strip :: "string \<Rightarrow> string" where
  "strip s = rev (dropWhile (\<lambda>c. c = CHR '' '') (rev (dropWhile (\<lambda>c. c = CHR '' '') s)))"

text \<open>\<open>ProfileManager._get_profile_path\<close>: the stem of the path.\<close>

definition get_profile_path :: "string \<Rightarrow> string" where
  "get_profile_path profile_name =
     strip (filter (\<lambda>c. isalnum c \<or> c \<in> {CHR '' '', CHR ''-'', CHR ''_''}) profile_name)"

text \<open>
  \<open>ProfileManager.load_profile\<close>: \<open>None\<close> when the path does not exist or the file cannot
  be read.
\<close>

definition load_profile :: "profiles_dir \<Rightarrow> string \<Rightarrow> pydict option" where
  "load_profile dir profile_name =
     (case map_of dir (get_profile_path profile_name) of
        None \<Rightarrow> None
      | Some Unreadable \<Rightarrow> None
      | Some (Profile nm rest) \<Rightarrow> Some (profile_data nm rest))"

text \<open>
  \<open>ProfileManager.list_profiles\<close>: \<open>data.get('name', path.stem)\<close> of every readable file,
  sorted. An unreadable file is skipped.
\<close>

fun listed_name :: "string \<times> profile_file \<Rightarrow> string option" where
  "listed_name (stem, Unreadable) = None"
| "listed_name (stem, Profile None rest) = Some stem"
| "listed_name (stem, Profile (Some n) rest) = Some n"

definition list_profiles :: "profiles_dir \<Rightarrow> string list" where
  "list_profiles dir = sort (List.map_filter listed_name dir)"

section \<open>The application (\<open>main.py\<close>, \<open>cli/cli_controller.py\<close>)\<close>

text \<open>
  The window and the tray are external collaborators: what the program reads from the
  window is a field of \<open>main_window\<close>, what it does to window, tray and timers is an
  event appended to \<open>gui\<close>. \<open>stdout\<close> is the text written to \<open>sys.stdout\<close>.
\<close>

record main_window =
  form_data :: pydict
  combo_text :: string

datatype gui_event =
    UpdateConnectionStatus bool string
  | TrayUpdateStatus bool
  | TrayShowMessage string string
  | QuitSingleShot nat
  | ComboSetCurrentText string
  | LoadSelectedProfile

record app =
  rpc :: rpc_manager
  profiles :: profiles_dir
  config :: pydict
  window :: "main_window option"
  stdout :: string
  gui :: "gui_event list"

definition nl :: string where
  "nl = [CHR 0x0A]"

definition apos :: string where
  "apos = [CHR 0x27]"

text \<open>\<open>print(text)\<close>.\<close>

definition print :: "string \<Rightarrow> app \<Rightarrow> app" where
  "print text a = a\<lparr>stdout := stdout a @ text @ nl\<rparr>"

definition emit :: "gui_event \<Rightarrow> app \<Rightarrow> app" where
  "emit ev a = a\<lparr>gui := gui a @ [ev]\<rparr>"

text \<open>\<open>str(i)\<close> for a natural number.\<close>

fun str_of_nat :: "nat \<Rightarrow> string" where
  "str_of_nat n =
     (if n < 10 then [''0123456789'' ! n]
      else str_of_nat (n div 10) @ [''0123456789'' ! (n mod 10)])"

text \<open>\<open>CLIController.execute_list_profiles\<close>: the exit code and the printing.\<close>

definition execute_list_profiles :: "app \<Rightarrow> int \<times> app" where
  "execute_list_profiles a =
     (let ps = list_profiles (profiles a)
      in if ps = [] then (0, print ''No profiles found.'' a)
         else (0, foldl (\<lambda>a' (i, profile). print (''  '' @ str_of_nat i @ ''. '' @ profile) a')
                    (print ''Available profiles:'' a) (List.enumerate 1 ps)))"

text \<open>\<open>CLIController.execute_load_profile\<close>; \<open>not profile\<close> holds for \<open>None\<close> and for \<open>{}\<close>.\<close>

definition execute_load_profile :: "string \<Rightarrow> app \<Rightarrow> int \<times> app" where
  "execute_load_profile profile_name a =
     (case load_profile (profiles a) profile_name of
        Some (x # xs) \<Rightarrow>
          (0, (print (''Loaded profile '' @ apos @ profile_name @ apos) a)
                \<lparr>config := dict_set (config a) ''last_profile'' (PStr profile_name)\<rparr>)
      | _ \<Rightarrow> (1, print (''Error: Profile '' @ apos @ profile_name @ apos @ '' not found.'') a))"

text \<open>\<open>CustomRPCApp._build_activity\<close>.\<close>

definition copy_truthy :: "pydict \<Rightarrow> string \<Rightarrow> string \<Rightarrow> pydict \<Rightarrow> pydict" where
  "copy_truthy data src dst activity =
     (if truthy (dict_get data src) then dict_set activity dst (dict_get data src) else activity)"

definition build_activity :: "pydict \<Rightarrow> pydict" where
  "build_activity data =
     (let a1 = copy_truthy data ''name'' ''name'' [];
          a2 = copy_truthy data ''details'' ''details'' a1;
          a3 = copy_truthy data ''state'' ''state'' a2;
          a4 = copy_truthy data ''start_timestamp'' ''start'' a3;
          a5 = copy_truthy data ''end_timestamp'' ''end'' a4;
          a6 = copy_truthy data ''large_image_key'' ''large_image'' a5;
          a7 = copy_truthy data ''large_image_text'' ''large_text'' a6;
          a8 = copy_truthy data ''small_image_key'' ''small_image'' a7;
          a9 = copy_truthy data ''small_image_text'' ''small_text'' a8;
          a10 = (if truthy (dict_get data ''party_size'') \<and> truthy (dict_get data ''party_max'')
                 then dict_set a9 ''party_size''
                        (PList [dict_get data ''party_size'', dict_get data ''party_max''])
                 else a9);
          a11 = copy_truthy data ''buttons'' ''buttons'' a10
      in if dict_get data ''instance'' \<noteq> PNone
         then dict_set a11 ''instance'' (dict_get data ''instance'')
         else a11)"

text \<open>
  The supervisor's methods on the application state. \<open>Inl e\<close> is an exception that leaves
  the method.
\<close>

definition app_connect :: "discord \<Rightarrow> pyval \<Rightarrow> app \<Rightarrow> bool \<times> app" where
  "app_connect d app_id a = (case connect d app_id (rpc a) of (ok, r) \<Rightarrow> (ok, a\<lparr>rpc := r\<rparr>))"

definition app_update_activity :: "discord \<Rightarrow> pydict \<Rightarrow> app \<Rightarrow> (exn + bool) \<times> app" where
  "app_update_activity d activity a =
     (case update_activity d activity (rpc a) of (res, r) \<Rightarrow> (res, a\<lparr>rpc := r\<rparr>))"

text \<open>\<open>CustomRPCApp._handle_disconnect\<close>.\<close>

definition handle_disconnect :: "discord \<Rightarrow> app \<Rightarrow> app" where
  "handle_disconnect d a =
     (let a1 = a\<lparr>rpc := disconnect d (rpc a)\<rparr>;
          a2 = (if window a1 \<noteq> None then emit (UpdateConnectionStatus False []) a1 else a1)
      in emit (TrayShowMessage ''CustomRPC'' ''Disconnected from Discord'')
           (emit (TrayUpdateStatus False) a2))"

text \<open>\<open>CustomRPCApp._handle_connect\<close>.\<close>

definition handle_connect :: "discord \<Rightarrow> app \<Rightarrow> (exn + unit) \<times> app" where
  "handle_connect d a =
     (case window a of
        None \<Rightarrow> (Inr (), a)
      | Some w \<Rightarrow>
          (let data = form_data w; app_id = dict_get data ''app_id''
           in if \<not> truthy app_id then (Inr (), a)
              else
                case app_connect d app_id a of
                  (True, a1) \<Rightarrow>
                    (case app_update_activity d (build_activity data) a1 of
                       (Inl e, a2) \<Rightarrow> (Inl e, a2)
                     | (Inr b, a2) \<Rightarrow>
                         (Inr (),
                          emit (TrayShowMessage ''CustomRPC'' ''Connected to Discord'')
                            (emit (TrayUpdateStatus True)
                              (emit (UpdateConnectionStatus True (''Connected - '' @ combo_text w))
                                 a2))))
                | (False, a1) \<Rightarrow>
                    (Inr (),
                     emit (TrayUpdateStatus False)
                       (emit (UpdateConnectionStatus False ''Connection Failed'') a1))))"

text \<open>
  A command is the dict decoded from the request: \<open>action\<close> is \<open>command.get('action')\<close>,
  any value (\<open>None\<close> when the key is absent); \<open>profile\<close> is \<open>command.get('profile')\<close>, a
  string when present.
\<close>

record command =
  action :: pyval
  profile :: "string option"

text \<open>The \<open>connect\<close> branch of \<open>CustomRPCApp._process_ipc_command\<close>.\<close>

definition ipc_connect :: "discord \<Rightarrow> string option \<Rightarrow> app \<Rightarrow> (exn + string) \<times> app" where
  "ipc_connect d profile_arg a =
     (case profile_arg of
        Some (c # cs) \<Rightarrow>
          (let profile_name = c # cs
           in case load_profile (profiles a) profile_name of
                Some (x # xs) \<Rightarrow>
                  (let prof = x # xs; app_id = dict_get prof ''app_id''
                   in if \<not> truthy app_id
                      then (Inr (''Failed to connect to Discord RPC'' @ nl), a)
                      else
                        case app_connect d app_id a of
                          (False, a1) \<Rightarrow> (Inr (''Failed to connect to Discord RPC'' @ nl), a1)
                        | (True, a1) \<Rightarrow>
                            (case app_update_activity d (build_activity prof) a1 of
                               (Inl e, a2) \<Rightarrow> (Inl e, a2)
                             | (Inr b, a2) \<Rightarrow>
                                 (let a3 = emit (TrayUpdateStatus True) a2;
                                      a4 = emit (TrayShowMessage ''CustomRPC''
                                                   (''Connected with profile: '' @ profile_name)) a3;
                                      a5 = (if window a4 \<noteq> None
                                            then emit (UpdateConnectionStatus True
                                                         (''Connected - '' @ profile_name)) a4
                                            else a4)
                                  in (Inr (''Connected to Discord RPC with profile: ''
                                             @ profile_name @ nl), a5))))
              | _ \<Rightarrow> (Inr (''Profile '' @ apos @ profile_name @ apos @ '' not found'' @ nl), a))
      | _ \<Rightarrow>
          (if window a \<noteq> None
           then (case handle_connect d a of
                   (Inl e, a1) \<Rightarrow> (Inl e, a1)
                 | (Inr u, a1) \<Rightarrow> (Inr (''Connected to Discord RPC'' @ nl), a1))
           else (Inr (''Cannot connect without profile in headless mode'' @ nl), a)))"

text \<open>
  The \<open>load_profile\<close> branch. What the window does in \<open>_load_selected_profile\<close> is the
  window's own business: it is the event \<open>LoadSelectedProfile\<close>.
\<close>

definition ipc_load_profile :: "string option \<Rightarrow> app \<Rightarrow> (exn + string) \<times> app" where
  "ipc_load_profile profile_arg a =
     (case profile_arg of
        Some (c # cs) \<Rightarrow>
          (let profile_name = c # cs
           in case execute_load_profile profile_name a of
                (exit_code, a1) \<Rightarrow>
                  if exit_code = 0
                  then (if window a1 \<noteq> None \<and> profile_name \<in> set (list_profiles (profiles a1))
                        then (Inr [], emit LoadSelectedProfile
                                        (emit (ComboSetCurrentText profile_name) a1))
                        else (Inr [], a1))
                  else (Inr (''Failed to load profile '' @ apos @ profile_name @ apos @ nl), a1))
      | _ \<Rightarrow> (Inr [], a))"

text \<open>
  \<open>CustomRPCApp._process_ipc_command\<close>: the returned output string, or the exception that
  leaves the method. The chain of \<open>if\<close>/\<open>elif\<close> has no \<open>else\<close>.
\<close>

definition process_ipc_command :: "discord \<Rightarrow> command \<Rightarrow> app \<Rightarrow> (exn + string) \<times> app" where
  "process_ipc_command d cmd a =
     (if action cmd = PStr ''list_profiles'' then (Inr [], snd (execute_list_profiles a))
      else if action cmd = PStr ''quit''
        then (Inr (''Quitting application...'' @ nl), emit (QuitSingleShot 100) a)
      else if action cmd = PStr ''disconnect''
        then (Inr (''Disconnected from Discord RPC'' @ nl),
              emit (TrayShowMessage ''CustomRPC'' ''Disconnected via CLI'') (handle_disconnect d a))
      else if action cmd = PStr ''connect'' then ipc_connect d (profile cmd) a
      else if action cmd = PStr ''load_profile'' then ipc_load_profile (profile cmd) a
      else (Inr [], a))"

text \<open>
  \<open>CustomRPCApp._handle_ipc_command\<close>: \<open>sys.stdout\<close> is a fresh buffer while the command
  is processed and is put back afterwards (\<open>finally\<close>). \<open>Inr r\<close> is the returned response
  dict, \<open>Inl e\<close> an exception that leaves the handler.
\<close>

definition handle_ipc_command :: "discord \<Rightarrow> command \<Rightarrow> app \<Rightarrow> (exn + pydict) \<times> app" where
  "handle_ipc_command d cmd a =
     (case process_ipc_command d cmd (a\<lparr>stdout := []\<rparr>) of
        (Inr output, a1) \<Rightarrow>
          (let captured = stdout a1;
               full_output = (if output \<noteq> [] then output @ captured else captured)
           in (Inr [(''success'', PBool True), (''output'', PStr full_output)],
               a1\<lparr>stdout := stdout a\<rparr>))
      | (Inl e, a1) \<Rightarrow>
          (Inr [(''success'', PBool False), (''error'', PStr (str_of_exn e)),
                (''output'', PStr (stdout a1))],
           a1\<lparr>stdout := stdout a\<rparr>))"

text \<open>The five actions the handler knows.\<close>

definition named_actions :: "pyval set" where
  "named_actions = {PStr ''connect'', PStr ''disconnect'', PStr ''quit'',
                    PStr ''list_profiles'', PStr ''load_profile''}"

section \<open>The command channel (\<open>utils/ipc.py\<close>)\<close>

text \<open>
  The JSON codec of the standard library is a parameter: \<open>loads data\<close> stands for
  \<open>json.loads(data.decode('utf-8'))\<close> and \<open>dumps v\<close> for
  \<open>json.dumps(v).encode('utf-8')\<close>; each returns its value or the exception it raises.
\<close>

record codec =
  loads :: "string \<Rightarrow> exn + pyval"
  dumps :: "pyval \<Rightarrow> exn + string"

text \<open>
  What the sockets do during one \<open>accept_connection\<close>: \<open>accept\<close> raises or yields a
  connection, \<open>recv(4096)\<close> raises or returns bytes, \<open>sendall\<close> raises or not.
\<close>

record server_env =
  accept_outcome :: "exn option"
  recv_outcome :: "exn + string"
  sendall_outcome :: "string \<Rightarrow> exn option"

text \<open>
  The outcome of \<open>IPCServer.accept_connection\<close>: the returned command (\<open>None\<close> for
  \<open>None\<close>), every \<open>sendall\<close> made on the connection with its outcome, whether the
  connection was closed (the \<open>with conn:\<close> block closes it however it is left), and the
  state of the callback's owner.
\<close>

record 'st accepted =
  returned :: "pyval option"
  sent :: "(string \<times> exn option) list"
  conn_closed :: bool
  owner :: 'st

definition no_reply :: "'st \<Rightarrow> 'st accepted" where
  "no_reply st = \<lparr> returned = None, sent = [], conn_closed = True, owner = st \<rparr>"

definition send_reply :: "server_env \<Rightarrow> pyval \<Rightarrow> string \<Rightarrow> 'st \<Rightarrow> 'st accepted" where
  "send_reply env cmd bytes st =
     (case sendall_outcome env bytes of
        None \<Rightarrow> \<lparr> returned = Some cmd, sent = [(bytes, None)], conn_closed = True, owner = st \<rparr>
      | Some e \<Rightarrow> \<lparr> returned = None, sent = [(bytes, Some e)], conn_closed = True, owner = st \<rparr>)"

definition accept_connection ::
    "codec \<Rightarrow> (pyval \<Rightarrow> 'st \<Rightarrow> (exn + pyval) \<times> 'st) option \<Rightarrow> server_env \<Rightarrow> 'st \<Rightarrow> 'st accepted" where
  "accept_connection cd response_callback env st =
     (case accept_outcome env of
        Some e \<Rightarrow> \<lparr> returned = None, sent = [], conn_closed = False, owner = st \<rparr>
      | None \<Rightarrow>
          (case recv_outcome env of
             Inl e \<Rightarrow> no_reply st
           | Inr data \<Rightarrow>
               if data = [] then no_reply st
               else
                 (case loads cd data of
                    Inl e \<Rightarrow> no_reply st
                  | Inr cmd \<Rightarrow>
                      (case response_callback of
                         Some callback \<Rightarrow>
                           (case callback cmd st of
                              (Inl e, st1) \<Rightarrow> no_reply st1
                            | (Inr response, st1) \<Rightarrow>
                                (case dumps cd response of
                                   Inl e \<Rightarrow> no_reply st1
                                 | Inr response_data \<Rightarrow> send_reply env cmd response_data st1))
                       | None \<Rightarrow> send_reply env cmd ''OK'' st))))"

text \<open>
  What the socket does during one \<open>send_command\<close>: creating it and connecting to the port
  raises or not, \<open>sendall\<close> raises or not, \<open>recv(4096)\<close> raises (a timeout, a reset) or
  returns bytes, none when the peer closed without a reply.
\<close>

record client_env =
  connect_outcome :: "nat \<Rightarrow> exn option"
  send_outcome :: "string \<Rightarrow> exn option"
  reply :: "exn + string"

text \<open>The dict \<open>{'success': False, 'error': msg}\<close>.\<close>

definition failure_response :: "string \<Rightarrow> pyval" where
  "failure_response msg = PDict [(''success'', PBool False), (''error'', PStr msg)]"

text \<open>The body of the \<open>try\<close> of \<open>IPCClient.send_command\<close>.\<close>

definition send_command_try :: "codec \<Rightarrow> client_env \<Rightarrow> nat \<Rightarrow> pyval \<Rightarrow> exn + pyval" where
  "send_command_try cd env port cmd =
     (case connect_outcome env port of
        Some e \<Rightarrow> Inl e
      | None \<Rightarrow>
          (case dumps cd cmd of
             Inl e \<Rightarrow> Inl e
           | Inr request \<Rightarrow>
               (case send_outcome env request of
                  Some e \<Rightarrow> Inl e
                | None \<Rightarrow>
                    (case reply env of
                       Inl e \<Rightarrow> Inl e
                     | Inr response_data \<Rightarrow>
                         if response_data \<noteq> []
                         then (case loads cd response_data of
                                 Inr response \<Rightarrow> Inr response
                               | Inl e \<Rightarrow>
                                   if exn_class_of e = JSONDecodeError
                                   then (if response_data = ''OK''
                                         then Inr (PDict [(''success'', PBool True)])
                                         else Inr (failure_response ''Invalid response''))
                                   else Inl e)
                         else Inr (failure_response ''No response'')))))"

text \<open>
  \<open>IPCClient.send_command\<close>: \<open>Inr r\<close> when it returns \<open>r\<close>, \<open>Inl e\<close> when it raises \<open>e\<close>
  to its caller. The \<open>except Exception\<close> clause covers the whole body.
\<close>

definition send_command :: "codec \<Rightarrow> client_env \<Rightarrow> nat \<Rightarrow> pyval \<Rightarrow> exn + pyval" where
  "send_command cd env port cmd =
     (case send_command_try cd env port cmd of
        Inr response \<Rightarrow> Inr response
      | Inl e \<Rightarrow> Inr (failure_response (str_of_exn e)))"

section \<open>Predicates used in the statements\<close>

text \<open>A dict none of whose values is \<open>None\<close>.\<close>

definition no_none :: "pydict \<Rightarrow> bool" where
  "no_none d = (\<forall>x \<in> set d. snd x \<noteq> PNone)"

definition is_dict :: "pyval \<Rightarrow> bool" where
  "is_dict v = (case v of PDict kvs \<Rightarrow> True | _ \<Rightarrow> False)"

section \<open>Concrete environments and inputs\<close>

text \<open>A service that accepts every call.\<close>

definition discord_ok :: discord where
  "discord_ok h c = None"

text \<open>
  A service whose pipe breaks after the first update of a connection: an \<open>update\<close> that
  directly follows another \<open>update\<close> raises, every other call succeeds. A fresh
  connection can publish again.
\<close>

definition pipe_breaks :: discord where
  "pipe_breaks h c =
     (case c of
        Update data \<Rightarrow>
          (case rev h of
             (Update prev, r) # rest \<Rightarrow> Some (Exn OtherError ''pipe closed'')
           | _ \<Rightarrow> None)
      | _ \<Rightarrow> None)"

definition demo_id :: pyval where
  "demo_id = PStr ''123456789012345678''"

definition demo_payload :: pydict where
  "demo_payload = [(''details'', PStr ''Playing''), (''state'', PNone)]"

text \<open>The supervisor after \<open>connect(demo_id)\<close> and after the following \<open>publish\<close>.\<close>

definition demo_connected :: rpc_manager where
  "demo_connected = snd (connect pipe_breaks demo_id rpc_init)"

definition demo_published :: rpc_manager where
  "demo_published = snd (update_activity pipe_breaks demo_payload demo_connected)"

text \<open>
  A profiles directory whose two files are listed by \<open>glob\<close> in the order Work, Gaming, an
  application that owns it and has no window, and one whose only profile is Work.
\<close>

definition demo_dir :: profiles_dir where
  "demo_dir = [(''Work'', Profile (Some ''Work'') [(''app_id'', PStr ''123456789012345678'')]),
               (''Gaming'', Profile (Some ''Gaming'') [(''app_id'', PStr ''123456789012345678'')])]"

definition demo_app :: app where
  "demo_app = \<lparr> rpc = rpc_init, profiles = demo_dir, config = [], window = None,
                stdout = [], gui = [] \<rparr>"

definition work_only :: app where
  "work_only = demo_app\<lparr>profiles := [(''Work'', Profile (Some ''Work'') [])]\<rparr>"

definition bogus_command :: command where
  "bogus_command = \<lparr> action = PStr ''bogus'', profile = None \<rparr>"

text \<open>
  A codec that agrees with the standard library on the bodies used below: \<open>42\<close> and the quit
  request are JSON, \<open>OK\<close> and \<open>{oops\<close> are not. It is consulted on these only.
\<close>

definition quit_request :: string where
  \<open>quit_request = ''{"action": "quit"}''\<close>

definition quit_cmd :: pyval where
  "quit_cmd = PDict [(''action'', PStr ''quit'')]"

definition demo_codec :: codec where
  "demo_codec =
     \<lparr> loads = (\<lambda>data. if data = ''42'' then Inr (PInt 42)
                       else if data = quit_request then Inr quit_cmd
                       else Inl (Exn JSONDecodeError ''Expecting value: line 1 column 1 (char 0)'')),
       dumps = (\<lambda>v. if v = quit_cmd then Inr quit_request
                    else Inl (Exn OtherError ''Object is not JSON serializable'')) \<rparr>"

text \<open>Clients whose peer answers with a given body, refuses the connection, or never answers.\<close>

definition client_ok :: "string \<Rightarrow> client_env" where
  "client_ok body =
     \<lparr> connect_outcome = (\<lambda>port. None), send_outcome = (\<lambda>bytes. None), reply = Inr body \<rparr>"

definition client_refused :: client_env where
  "client_refused =
     \<lparr> connect_outcome = (\<lambda>port. Some (Exn OtherError ''[Errno 111] Connection refused'')),
       send_outcome = (\<lambda>bytes. None), reply = Inr [] \<rparr>"

definition client_broken_pipe :: client_env where
  "client_broken_pipe =
     \<lparr> connect_outcome = (\<lambda>port. None),
       send_outcome = (\<lambda>bytes. Some (Exn OtherError ''[Errno 32] Broken pipe'')),
       reply = Inr [] \<rparr>"

definition client_timeout :: client_env where
  "client_timeout =
     \<lparr> connect_outcome = (\<lambda>port. None), send_outcome = (\<lambda>bytes. None),
       reply = Inl (Exn OtherError ''timed out'') \<rparr>"

text \<open>A server connection on which a given request arrives, and a handler that acknowledges.\<close>

definition server_receives :: "string \<Rightarrow> server_env" where
  "server_receives data =
     \<lparr> accept_outcome = None, recv_outcome = Inr data, sendall_outcome = (\<lambda>bytes. None) \<rparr>"

definition ack_callback :: "pyval \<Rightarrow> unit \<Rightarrow> (exn + pyval) \<times> unit" where
  "ack_callback cmd st = (Inr quit_cmd, st)"

section \<open>Properties of the connection supervisor\<close>

lemma demo_connected_eq:
  "demo_connected =
     \<lparr> client = Some demo_id, client_id = demo_id, status = CONNECTED,
       current_activity = None, reconnect_thread = Some True,
       reconnect_event = False, should_reconnect = True,
       calls = [(New demo_id, None), (Connect, None)] \<rparr>"
  by (simp add: demo_connected_def connect_def presence_call_def rpc_init_def pipe_breaks_def)

lemma demo_published_eq:
  "demo_published =
     \<lparr> client = Some demo_id, client_id = demo_id, status = CONNECTED,
       current_activity = Some demo_payload, reconnect_thread = Some True,
       reconnect_event = False, should_reconnect = True,
       calls = [(New demo_id, None), (Connect, None),
                (Update [(''details'', PStr ''Playing'')], None)] \<rparr>"
  by (simp add: demo_published_def demo_connected_eq update_activity_def presence_call_def
        pipe_breaks_def rpc_data_of_def demo_payload_def)

text \<open>
  \<open>update_activity\<close> never raises to its caller: whatever \<open>client.update\<close> does, the
  method returns a boolean.
\<close>

lemma update_activity_returns: "\<exists>b. fst (update_activity d a s) = Inr b"
  by (auto simp add: update_activity_def presence_call_def split: option.splits)

text \<open>
  So the \<open>except\<close> clause of the liveness tick is never entered: a tick whose probe fails
  records the failed \<open>update\<close> and changes nothing else.
\<close>

lemma probe_failure_ignored:
  assumes "status s = CONNECTED" and "client s \<noteq> None"
    and "current_activity s = Some a" and "a \<noteq> []"
    and "d (calls s) (Update (rpc_data_of a)) = Some e"
  shows "probe d s = s\<lparr>calls := calls s @ [(Update (rpc_data_of a), Some e)]\<rparr>"
  using assms by (simp add: probe_def update_activity_def presence_call_def)

text \<open>
  C1. After \<open>connect("123456789012345678")\<close> and \<open>publish(payload)\<close>, a liveness tick whose
  probe fails should leave the supervisor connected with the payload republished, or
  disconnected. On the service \<open>pipe_breaks\<close> the probe of the tick raises, a reconnect
  would succeed and a republish on the new connection would succeed; the tick ends with the
  status still \<open>CONNECTED\<close>, with no \<open>close\<close>, no new connection and no successful
  \<open>update\<close> after the failed probe.
\<close>

theorem liveness_tick_failed_probe_stays_stale:
  "status demo_published = CONNECTED
   \<and> client demo_published = Some demo_id
   \<and> current_activity demo_published = Some demo_payload
   \<and> pipe_breaks (calls demo_published) (Update (rpc_data_of demo_payload))
       = Some (Exn OtherError ''pipe closed'')
   \<and> auto_reconnect_tick pipe_breaks demo_published
       = (False, demo_published\<lparr>calls := calls demo_published @
            [(Update (rpc_data_of demo_payload), Some (Exn OtherError ''pipe closed''))]\<rparr>)
   \<and> status (snd (auto_reconnect_tick pipe_breaks demo_published)) = CONNECTED"
  by (simp add: demo_published_eq auto_reconnect_tick_def probe_def update_activity_def
        presence_call_def pipe_breaks_def rpc_data_of_def demo_payload_def)

text \<open>
  C8. \<open>publish\<close> (\<open>update_activity\<close>) returns failure and leaves the whole state, the
  trace of external calls included, as it was unless there is a client and the status is
  \<open>CONNECTED\<close>; and whenever it returns success, the payload is stored as the last-known
  payload.
\<close>

theorem update_activity_requires_connected:
  "(client s = None \<or> status s \<noteq> CONNECTED \<longrightarrow> update_activity d a s = (Inr False, s)) \<and>
   (fst (update_activity d a s) = Inr True \<longrightarrow>
      current_activity (snd (update_activity d a s)) = Some a)"
  by (auto simp add: update_activity_def presence_call_def split: option.splits)

theorem update_activity_requires_connected_witness:
  "(client rpc_init = None \<or> status rpc_init \<noteq> CONNECTED)
   \<and> update_activity discord_ok demo_payload rpc_init = (Inr False, rpc_init)
   \<and> fst (update_activity discord_ok demo_payload demo_connected) = Inr True
   \<and> current_activity (snd (update_activity discord_ok demo_payload demo_connected))
       = Some demo_payload"
proof -
  have h1: "client rpc_init = None \<or> status rpc_init \<noteq> CONNECTED"
    by (simp add: rpc_init_def)
  have h2: "fst (update_activity discord_ok demo_payload demo_connected) = Inr True"
    by (simp add: demo_connected_eq update_activity_def presence_call_def discord_ok_def)
  show ?thesis
    using h1 h2
      update_activity_requires_connected [of rpc_init discord_ok demo_payload]
      update_activity_requires_connected [of demo_connected discord_ok demo_payload]
    by simp
qed

text \<open>
  C9. When \<open>publish\<close> reaches the service, the data sent are exactly the items of the
  payload whose value is not \<open>None\<close>: the same keys with the same values, and no key
  with a \<open>None\<close> value.
\<close>

theorem update_activity_sends_non_none_fields:
  assumes "client s \<noteq> None" and "status s = CONNECTED"
  shows "\<exists>sent. calls (snd (update_activity d a s))
                  = calls s @ [(Update sent, d (calls s) (Update sent))]
           \<and> set sent = {(k, v). (k, v) \<in> set a \<and> v \<noteq> PNone}
           \<and> fst ` set sent = {k. \<exists>v. (k, v) \<in> set a \<and> v \<noteq> PNone}"
proof -
  let ?sent = "rpc_data_of a"
  have trace: "calls (snd (update_activity d a s))
                 = calls s @ [(Update ?sent, d (calls s) (Update ?sent))]"
    using assms by (simp add: update_activity_def presence_call_def split: option.splits)
  have items: "set ?sent = {(k, v). (k, v) \<in> set a \<and> v \<noteq> PNone}"
    by (auto simp add: rpc_data_of_def)
  have keys: "fst ` set ?sent = {k. \<exists>v. (k, v) \<in> set a \<and> v \<noteq> PNone}"
    unfolding items by (auto simp add: image_iff)
  from trace items keys show ?thesis by blast
qed

theorem update_activity_sends_non_none_fields_witness:
  "client demo_connected \<noteq> None \<and> status demo_connected = CONNECTED
   \<and> (\<exists>sent. calls (snd (update_activity discord_ok demo_payload demo_connected))
                = calls demo_connected @
                    [(Update sent, discord_ok (calls demo_connected) (Update sent))]
         \<and> set sent = {(k, v). (k, v) \<in> set demo_payload \<and> v \<noteq> PNone}
         \<and> fst ` set sent = {k. \<exists>v. (k, v) \<in> set demo_payload \<and> v \<noteq> PNone})"
proof -
  have h1: "client demo_connected \<noteq> None" by (simp add: demo_connected_eq)
  have h2: "status demo_connected = CONNECTED" by (simp add: demo_connected_eq)
  show ?thesis
    using h1 h2 update_activity_sends_non_none_fields [OF h1 h2, of discord_ok demo_payload]
    by simp
qed

text \<open>
  C10. With status \<open>CONNECTED\<close>, when the external \<open>update\<close> call raises, \<open>publish\<close>
  returns \<open>False\<close> and the supervisor is as before: status, last-known payload and every
  other field keep their values (only the trace of external calls has grown).
\<close>

theorem update_activity_failure_keeps_state:
  assumes "status s = CONNECTED" and "d (calls s) (Update (rpc_data_of a)) = Some e"
  shows "fst (update_activity d a s) = Inr False
         \<and> status (snd (update_activity d a s)) = status s
         \<and> current_activity (snd (update_activity d a s)) = current_activity s
         \<and> (snd (update_activity d a s))\<lparr>calls := calls s\<rparr> = s"
  using assms by (simp add: update_activity_def presence_call_def)

theorem update_activity_failure_keeps_state_witness:
  "status demo_published = CONNECTED
   \<and> pipe_breaks (calls demo_published) (Update (rpc_data_of demo_payload))
       = Some (Exn OtherError ''pipe closed'')
   \<and> fst (update_activity pipe_breaks demo_payload demo_published) = Inr False
   \<and> status (snd (update_activity pipe_breaks demo_payload demo_published)) = CONNECTED
   \<and> current_activity (snd (update_activity pipe_breaks demo_payload demo_published))
       = Some demo_payload"
proof -
  have h1: "status demo_published = CONNECTED" by (simp add: demo_published_eq)
  have h2: "pipe_breaks (calls demo_published) (Update (rpc_data_of demo_payload))
              = Some (Exn OtherError ''pipe closed'')"
    by (simp add: demo_published_eq pipe_breaks_def rpc_data_of_def demo_payload_def)
  have h3: "current_activity demo_published = Some demo_payload"
    by (simp add: demo_published_eq)
  show ?thesis
    using h1 h2 h3
      update_activity_failure_keeps_state [of demo_published pipe_breaks demo_payload, OF h1 h2]
    by simp
qed

section \<open>Properties of the command handler\<close>

text \<open>
  C2 as stated fails: the command \<open>{'action': 'bogus'}\<close> names none of the five actions, and
  the handler answers it with \<open>success\<close> true.
\<close>

theorem unknown_action_reported_as_success:
  "action bogus_command \<notin> named_actions
   \<and> fst (handle_ipc_command discord_ok bogus_command demo_app)
       = Inr [(''success'', PBool True), (''output'', PStr [])]"
  by (simp add: bogus_command_def named_actions_def handle_ipc_command_def
        process_ipc_command_def)

text \<open>
  C2, amended. For every command whose action is not one of the five named actions, the
  handler returns the response \<open>{'success': True, 'output': ''}\<close> and leaves the application
  as it was: the command is ignored, and no exception leaves the handler.
\<close>

theorem unknown_action_ignored:
  assumes "action cmd \<notin> named_actions"
  shows "handle_ipc_command d cmd a
           = (Inr [(''success'', PBool True), (''output'', PStr [])], a)"
  using assms
  by (simp add: named_actions_def handle_ipc_command_def process_ipc_command_def)

theorem unknown_action_ignored_witness:
  "action bogus_command \<notin> named_actions
   \<and> handle_ipc_command discord_ok bogus_command demo_app
       = (Inr [(''success'', PBool True), (''output'', PStr [])], demo_app)"
proof -
  have h: "action bogus_command \<notin> named_actions"
    by (simp add: bogus_command_def named_actions_def)
  show ?thesis
    using h unknown_action_ignored [OF h, of discord_ok demo_app] by simp
qed

text \<open>The names come out of \<open>list_profiles\<close> in lexicographic order.\<close>

lemma sorted_list_profiles: "sorted (list_profiles dir)"
  by (simp add: list_profiles_def)

lemma list_profiles_response:
  assumes "list_profiles (profiles a) = [''Gaming'', ''Work'']"
  shows "fst (handle_ipc_command d \<lparr>action = PStr ''list_profiles'', profile = p\<rparr> a)
           = Inr [(''success'', PBool True),
                  (''output'', PStr (''Available profiles:'' @ nl @ ''  1. Gaming'' @ nl
                                      @ ''  2. Work'' @ nl))]"
  using assms
  by (simp add: handle_ipc_command_def process_ipc_command_def execute_list_profiles_def
        print_def List.enumerate_eq_zip upt_rec Let_def)

text \<open>
  C5 as stated fails: with the profiles Gaming and Work in the store, the output of the
  response is not the bare names.
\<close>

theorem list_profiles_output_not_bare_names:
  "List.map_filter listed_name (profiles demo_app) = [''Work'', ''Gaming'']
   \<and> fst (handle_ipc_command discord_ok \<lparr>action = PStr ''list_profiles'', profile = None\<rparr>
            demo_app)
       \<noteq> Inr [(''success'', PBool True), (''output'', PStr (''Gaming'' @ nl @ ''Work'' @ nl))]"
proof -
  have h: "List.map_filter listed_name (profiles demo_app) = [''Work'', ''Gaming'']"
    by (simp add: demo_app_def demo_dir_def List.map_filter_simps)
  have "list_profiles (profiles demo_app) = [''Gaming'', ''Work'']"
    by (simp add: list_profiles_def h)
  then show ?thesis
    using h by (simp add: list_profiles_response nl_def)
qed

text \<open>
  C5, amended. When the files of the profile store list exactly the names Gaming and Work,
  in whichever order the directory yields them, the response to \<open>list_profiles\<close> is
  success with the output \<open>Available profiles:\<close>, \<open>  1. Gaming\<close>, \<open>  2. Work\<close>, one per line: a
  header, then the names numbered from 1 in lexicographic order.
\<close>

theorem list_profiles_numbered_sorted:
  assumes "List.map_filter listed_name (profiles a) = [''Gaming'', ''Work'']
           \<or> List.map_filter listed_name (profiles a) = [''Work'', ''Gaming'']"
  shows "fst (handle_ipc_command d \<lparr>action = PStr ''list_profiles'', profile = p\<rparr> a)
           = Inr [(''success'', PBool True),
                  (''output'', PStr (''Available profiles:'' @ nl @ ''  1. Gaming'' @ nl
                                      @ ''  2. Work'' @ nl))]"
proof -
  from assms have "list_profiles (profiles a) = [''Gaming'', ''Work'']"
    by (auto simp add: list_profiles_def)
  then show ?thesis by (rule list_profiles_response)
qed

theorem list_profiles_numbered_sorted_witness:
  "List.map_filter listed_name (profiles demo_app) = [''Work'', ''Gaming'']
   \<and> fst (handle_ipc_command discord_ok \<lparr>action = PStr ''list_profiles'', profile = None\<rparr>
            demo_app)
       = Inr [(''success'', PBool True),
              (''output'', PStr (''Available profiles:'' @ nl @ ''  1. Gaming'' @ nl
                                  @ ''  2. Work'' @ nl))]"
proof -
  have h: "List.map_filter listed_name (profiles demo_app) = [''Work'', ''Gaming'']"
    by (simp add: demo_app_def demo_dir_def List.map_filter_simps)
  then have h': "List.map_filter listed_name (profiles demo_app) = [''Gaming'', ''Work'']
                 \<or> List.map_filter listed_name (profiles demo_app) = [''Work'', ''Gaming'']"
    by simp
  show ?thesis
    using h list_profiles_numbered_sorted [OF h', of discord_ok None] by simp
qed

lemma get_profile_path_Gaming: "get_profile_path ''Gaming'' = ''Gaming''"
  by (simp add: get_profile_path_def strip_def isalnum_def)

text \<open>
  C6. When the profile store has no file for Gaming, the response to
  \<open>{'action': 'connect', 'profile': 'Gaming'}\<close> is success with the output
  \<open>Profile 'Gaming' not found\<close> and a newline.
\<close>

theorem connect_missing_profile_reported_in_output:
  assumes "''Gaming'' \<notin> fst ` set (profiles a)"
  shows "fst (handle_ipc_command d \<lparr>action = PStr ''connect'', profile = Some ''Gaming''\<rparr> a)
           = Inr [(''success'', PBool True),
                  (''output'', PStr (''Profile '' @ apos @ ''Gaming'' @ apos @ '' not found''
                                      @ nl))]"
proof -
  from assms have "map_of (profiles a) ''Gaming'' = None"
    by (simp add: map_of_eq_None_iff)
  then have "load_profile (profiles a) ''Gaming'' = None"
    by (simp add: load_profile_def get_profile_path_Gaming)
  then show ?thesis
    by (simp add: handle_ipc_command_def process_ipc_command_def ipc_connect_def nl_def
          apos_def)
qed

theorem connect_missing_profile_reported_in_output_witness:
  "''Gaming'' \<notin> fst ` set (profiles work_only)
   \<and> fst (handle_ipc_command discord_ok \<lparr>action = PStr ''connect'', profile = Some ''Gaming''\<rparr>
            work_only)
       = Inr [(''success'', PBool True),
              (''output'', PStr (''Profile '' @ apos @ ''Gaming'' @ apos @ '' not found''
                                  @ nl))]"
proof -
  have h: "''Gaming'' \<notin> fst ` set (profiles work_only)"
    by (simp add: work_only_def demo_app_def)
  show ?thesis
    using h connect_missing_profile_reported_in_output [OF h, of discord_ok] by simp
qed

section \<open>Properties of the activity builder\<close>

lemma no_none_Cons: "no_none ((k, v) # d) = (v \<noteq> PNone \<and> no_none d)"
  by (simp add: no_none_def)

lemma no_none_Nil: "no_none []"
  by (simp add: no_none_def)

lemma dict_set_no_none: "v \<noteq> PNone \<Longrightarrow> no_none d \<Longrightarrow> no_none (dict_set d k v)"
proof (induction d)
  case Nil
  then show ?case by (simp add: no_none_Cons no_none_Nil)
next
  case (Cons p d)
  obtain k' v' where p: "p = (k', v')" by (cases p)
  from Cons.prems p have "v' \<noteq> PNone" and "no_none d"
    by (simp_all add: no_none_Cons)
  with Cons.IH Cons.prems(1) p show ?case
    by (simp add: no_none_Cons)
qed

lemma truthy_not_none: "truthy v \<Longrightarrow> v \<noteq> PNone"
  by (cases v) simp_all

lemma copy_truthy_no_none: "no_none activity \<Longrightarrow> no_none (copy_truthy data src dst activity)"
  unfolding copy_truthy_def
  by (cases "truthy (dict_get data src)")
     (simp_all add: dict_set_no_none truthy_not_none del: truthy.simps)

lemma if_no_none:
  "(c \<Longrightarrow> no_none a) \<Longrightarrow> (\<not> c \<Longrightarrow> no_none b) \<Longrightarrow> no_none (if c then a else b)"
  by simp

text \<open>
  \<open>_build_activity\<close> never puts a \<open>None\<close> into the payload, so a payload it built is
  sent whole.
\<close>

lemma build_activity_no_none: "no_none (build_activity data)"
  unfolding build_activity_def Let_def
  by (intro if_no_none copy_truthy_no_none dict_set_no_none no_none_Nil) simp_all

lemma build_activity_sent_whole: "rpc_data_of (build_activity data) = build_activity data"
proof -
  have "\<forall>x \<in> set (build_activity data). (case x of (k, v) \<Rightarrow> v \<noteq> PNone)"
    using build_activity_no_none [of data] by (auto simp add: no_none_def)
  then show ?thesis unfolding rpc_data_of_def by (simp only: filter_True)
qed

section \<open>Properties of the command channel\<close>

lemma demo_loads_42: "loads demo_codec ''42'' = Inr (PInt 42)"
  by (simp add: demo_codec_def)

lemma demo_loads_OK:
  "loads demo_codec ''OK''
     = Inl (Exn JSONDecodeError ''Expecting value: line 1 column 1 (char 0)'')"
  by (simp add: demo_codec_def quit_request_def)

lemma demo_loads_oops:
  "loads demo_codec ''{oops''
     = Inl (Exn JSONDecodeError ''Expecting value: line 1 column 1 (char 0)'')"
  by (simp add: demo_codec_def quit_request_def)

lemma demo_dumps_quit: "dumps demo_codec quit_cmd = Inr quit_request"
  by (simp add: demo_codec_def)

text \<open>
  When the request decodes and the callback answers, the server sends the serialized
  response and returns the command.
\<close>

lemma accept_connection_replies:
  assumes "accept_outcome env = None" and "recv_outcome env = Inr data" and "data \<noteq> []"
    and "loads cd data = Inr cmd" and "callback cmd st = (Inr response, st1)"
    and "dumps cd response = Inr response_data" and "sendall_outcome env response_data = None"
  shows "accept_connection cd (Some callback) env st
           = \<lparr> returned = Some cmd, sent = [(response_data, None)], conn_closed = True,
               owner = st1 \<rparr>"
  using assms by (simp add: accept_connection_def send_reply_def)

text \<open>
  C3 as stated fails: a connection is accepted, the request \<open>{oops\<close> does not decode, and
  the server makes no \<open>sendall\<close> on the connection.
\<close>

theorem malformed_request_gets_no_reply:
  "accept_outcome (server_receives ''{oops'') = None
   \<and> recv_outcome (server_receives ''{oops'') = Inr ''{oops''
   \<and> loads demo_codec ''{oops''
       = Inl (Exn JSONDecodeError ''Expecting value: line 1 column 1 (char 0)'')
   \<and> sent (accept_connection demo_codec (Some ack_callback) (server_receives ''{oops'') ()) = []"
  by (simp add: accept_connection_def no_reply_def server_receives_def demo_loads_oops)

text \<open>
  C3, amended. For every accepted connection whose request fails to decode, the server
  sends nothing: the callback is not invoked, the connection is closed without a reply and
  \<open>accept_connection\<close> returns \<open>None\<close>.
\<close>

theorem accept_connection_decode_failure_no_reply:
  assumes "accept_outcome env = None" and "recv_outcome env = Inr data"
    and "loads cd data = Inl e"
  shows "accept_connection cd callback env st
           = \<lparr> returned = None, sent = [], conn_closed = True, owner = st \<rparr>"
  using assms by (simp add: accept_connection_def no_reply_def)

theorem accept_connection_decode_failure_no_reply_witness:
  "accept_outcome (server_receives ''{oops'') = None
   \<and> recv_outcome (server_receives ''{oops'') = Inr ''{oops''
   \<and> accept_connection demo_codec (Some ack_callback) (server_receives ''{oops'') ()
       = \<lparr> returned = None, sent = [], conn_closed = True, owner = () \<rparr>"
proof -
  have h1: "accept_outcome (server_receives ''{oops'') = None"
    by (simp add: server_receives_def)
  have h2: "recv_outcome (server_receives ''{oops'') = Inr ''{oops''"
    by (simp add: server_receives_def)
  show ?thesis
    using h1 h2
      accept_connection_decode_failure_no_reply
        [OF h1 h2 demo_loads_oops, of "Some ack_callback" "()"]
    by simp
qed

text \<open>\<open>send_command\<close>, case by case.\<close>

lemma send_command_cases:
  "send_command cd env port cmd =
     (case connect_outcome env port of
        Some e \<Rightarrow> Inr (failure_response (str_of_exn e))
      | None \<Rightarrow>
          (case dumps cd cmd of
             Inl e \<Rightarrow> Inr (failure_response (str_of_exn e))
           | Inr request \<Rightarrow>
               (case send_outcome env request of
                  Some e \<Rightarrow> Inr (failure_response (str_of_exn e))
                | None \<Rightarrow>
                    (case reply env of
                       Inl e \<Rightarrow> Inr (failure_response (str_of_exn e))
                     | Inr response_data \<Rightarrow>
                         if response_data = [] then Inr (failure_response ''No response'')
                         else (case loads cd response_data of
                                 Inr response \<Rightarrow> Inr response
                               | Inl e \<Rightarrow>
                                   if exn_class_of e \<noteq> JSONDecodeError
                                   then Inr (failure_response (str_of_exn e))
                                   else if response_data = ''OK''
                                   then Inr (PDict [(''success'', PBool True)])
                                   else Inr (failure_response ''Invalid response''))))))"
  by (simp add: send_command_def send_command_try_def split: option.splits sum.splits)

lemma send_command_result:
  "\<exists>r. send_command cd env port cmd = Inr r
        \<and> ((\<exists>msg. r = failure_response msg)
           \<or> (\<exists>data. reply env = Inr data
                 \<and> (loads cd data = Inr r
                    \<or> (data = ''OK'' \<and> r = PDict [(''success'', PBool True)]))))"
  by (auto simp add: send_command_cases split: option.splits sum.splits)

lemma send_command_decode_failure:
  assumes "connect_outcome env port = None" and "dumps cd cmd = Inr request"
    and "send_outcome env request = None" and "reply env = Inr data"
    and "loads cd data = Inl e" and "data \<noteq> ''OK''"
  shows "\<exists>msg. send_command cd env port cmd = Inr (failure_response msg)"
  using assms by (auto simp add: send_command_cases)

text \<open>
  The error handling of \<open>send_command\<close>. It never raises to its caller: it always returns a
  value. A connection error, a send error, a timeout or reset while receiving yields the
  failure response with the text of the error; a reply that fails to decode, the legacy
  body \<open>OK\<close> apart, yields a failure response.
\<close>

lemma send_command_always_returns:
  "(\<exists>r. send_command cd env port cmd = Inr r
        \<and> ((\<exists>msg. r = failure_response msg)
           \<or> (\<exists>data. reply env = Inr data
                 \<and> (loads cd data = Inr r
                    \<or> (data = ''OK'' \<and> r = PDict [(''success'', PBool True)])))))
   \<and> (\<forall>e. connect_outcome env port = Some e
          \<longrightarrow> send_command cd env port cmd = Inr (failure_response (str_of_exn e)))
   \<and> (\<forall>e request. connect_outcome env port = None \<and> dumps cd cmd = Inr request
                   \<and> send_outcome env request = Some e
          \<longrightarrow> send_command cd env port cmd = Inr (failure_response (str_of_exn e)))
   \<and> (\<forall>e request. connect_outcome env port = None \<and> dumps cd cmd = Inr request
                   \<and> send_outcome env request = None \<and> reply env = Inl e
          \<longrightarrow> send_command cd env port cmd = Inr (failure_response (str_of_exn e)))
   \<and> (\<forall>e request data. connect_outcome env port = None \<and> dumps cd cmd = Inr request
                   \<and> send_outcome env request = None \<and> reply env = Inr data
                   \<and> loads cd data = Inl e \<and> data \<noteq> ''OK''
          \<longrightarrow> (\<exists>msg. send_command cd env port cmd = Inr (failure_response msg)))"
proof (intro conjI allI impI)
  show "\<exists>r. send_command cd env port cmd = Inr r
        \<and> ((\<exists>msg. r = failure_response msg)
           \<or> (\<exists>data. reply env = Inr data
                 \<and> (loads cd data = Inr r
                    \<or> (data = ''OK'' \<and> r = PDict [(''success'', PBool True)]))))"
    by (rule send_command_result)
next
  fix e assume "connect_outcome env port = Some e"
  then show "send_command cd env port cmd = Inr (failure_response (str_of_exn e))"
    by (simp add: send_command_cases)
next
  fix e request
  assume "connect_outcome env port = None \<and> dumps cd cmd = Inr request
          \<and> send_outcome env request = Some e"
  then show "send_command cd env port cmd = Inr (failure_response (str_of_exn e))"
    by (simp add: send_command_cases)
next
  fix e request
  assume "connect_outcome env port = None \<and> dumps cd cmd = Inr request
          \<and> send_outcome env request = None \<and> reply env = Inl e"
  then show "send_command cd env port cmd = Inr (failure_response (str_of_exn e))"
    by (simp add: send_command_cases)
next
  fix e request data
  assume "connect_outcome env port = None \<and> dumps cd cmd = Inr request
          \<and> send_outcome env request = None \<and> reply env = Inr data
          \<and> loads cd data = Inl e \<and> data \<noteq> ''OK''"
  then show "\<exists>msg. send_command cd env port cmd = Inr (failure_response msg)"
    using send_command_decode_failure by blast
qed

lemma send_command_always_returns_witness:
  "connect_outcome client_refused 50000
     = Some (Exn OtherError ''[Errno 111] Connection refused'')
   \<and> send_command demo_codec client_refused 50000 quit_cmd
       = Inr (failure_response ''[Errno 111] Connection refused'')
   \<and> send_outcome client_broken_pipe quit_request
       = Some (Exn OtherError ''[Errno 32] Broken pipe'')
   \<and> send_command demo_codec client_broken_pipe 50000 quit_cmd
       = Inr (failure_response ''[Errno 32] Broken pipe'')
   \<and> reply client_timeout = Inl (Exn OtherError ''timed out'')
   \<and> send_command demo_codec client_timeout 50000 quit_cmd
       = Inr (failure_response ''timed out'')
   \<and> reply (client_ok ''{oops'') = Inr ''{oops''
   \<and> (\<exists>msg. send_command demo_codec (client_ok ''{oops'') 50000 quit_cmd
               = Inr (failure_response msg))"
proof -
  have a: "connect_outcome client_refused 50000
             = Some (Exn OtherError ''[Errno 111] Connection refused'')"
    by (simp add: client_refused_def)
  have b: "connect_outcome client_broken_pipe 50000 = None
           \<and> dumps demo_codec quit_cmd = Inr quit_request
           \<and> send_outcome client_broken_pipe quit_request
               = Some (Exn OtherError ''[Errno 32] Broken pipe'')"
    by (simp add: client_broken_pipe_def demo_dumps_quit)
  have c: "connect_outcome client_timeout 50000 = None
           \<and> dumps demo_codec quit_cmd = Inr quit_request
           \<and> send_outcome client_timeout quit_request = None
           \<and> reply client_timeout = Inl (Exn OtherError ''timed out'')"
    by (simp add: client_timeout_def demo_dumps_quit)
  have d: "connect_outcome (client_ok ''{oops'') 50000 = None
           \<and> dumps demo_codec quit_cmd = Inr quit_request
           \<and> send_outcome (client_ok ''{oops'') quit_request = None
           \<and> reply (client_ok ''{oops'') = Inr ''{oops''
           \<and> loads demo_codec ''{oops''
               = Inl (Exn JSONDecodeError ''Expecting value: line 1 column 1 (char 0)'')
           \<and> ''{oops'' \<noteq> ''OK''"
    by (simp add: client_ok_def demo_dumps_quit demo_loads_oops)
  have r1: "send_command demo_codec client_refused 50000 quit_cmd
              = Inr (failure_response
                       (str_of_exn (Exn OtherError ''[Errno 111] Connection refused'')))"
    by (rule send_command_always_returns
          [of demo_codec client_refused 50000 quit_cmd,
           THEN conjunct2, THEN conjunct1, rule_format, OF a])
  have r2: "send_command demo_codec client_broken_pipe 50000 quit_cmd
              = Inr (failure_response (str_of_exn (Exn OtherError ''[Errno 32] Broken pipe'')))"
    by (rule send_command_always_returns
          [of demo_codec client_broken_pipe 50000 quit_cmd,
           THEN conjunct2, THEN conjunct2, THEN conjunct1, rule_format, OF b])
  have r3: "send_command demo_codec client_timeout 50000 quit_cmd
              = Inr (failure_response (str_of_exn (Exn OtherError ''timed out'')))"
    by (rule send_command_always_returns
          [of demo_codec client_timeout 50000 quit_cmd,
           THEN conjunct2, THEN conjunct2, THEN conjunct2, THEN conjunct1, rule_format, OF c])
  have r4: "\<exists>msg. send_command demo_codec (client_ok ''{oops'') 50000 quit_cmd
                    = Inr (failure_response msg)"
    by (rule send_command_always_returns
          [of demo_codec "client_ok ''{oops''" 50000 quit_cmd,
           THEN conjunct2, THEN conjunct2, THEN conjunct2, THEN conjunct2, rule_format, OF d])
  from a b c d r1 r2 r3 r4 show ?thesis by simp
qed

text \<open>A reply that decodes is handed to the caller as it is, whatever its shape.\<close>

lemma send_command_returns_decoded_reply:
  assumes "connect_outcome env port = None" and "dumps cd cmd = Inr request"
    and "send_outcome env request = None" and "reply env = Inr data" and "data \<noteq> []"
    and "loads cd data = Inr r"
  shows "send_command cd env port cmd = Inr r"
  using assms by (simp add: send_command_cases)

text \<open>
  C4. \<open>send_command\<close> is to hand its caller a response dict whatever happens. No exception
  leaves it and every failure becomes a failure response, but a reply that decodes is
  returned unchecked: when the peer answers with the body \<open>42\<close>, which is JSON, the caller
  receives the number 42, which is not a dict.
\<close>

theorem send_command_returns_non_dict_reply:
  "connect_outcome (client_ok ''42'') 50000 = None
   \<and> dumps demo_codec quit_cmd = Inr quit_request
   \<and> send_outcome (client_ok ''42'') quit_request = None
   \<and> reply (client_ok ''42'') = Inr ''42''
   \<and> loads demo_codec ''42'' = Inr (PInt 42)
   \<and> send_command demo_codec (client_ok ''42'') 50000 quit_cmd = Inr (PInt 42)
   \<and> is_dict (PInt 42) = False"
  by (simp add: send_command_def send_command_try_def client_ok_def demo_loads_42
        demo_dumps_quit is_dict_def)

text \<open>
  C7. When the client receives the body \<open>OK\<close>, which the decoder rejects as not being
  JSON, \<open>send_command\<close> returns \<open>{'success': True}\<close>, with no output field.
\<close>

theorem send_command_legacy_ok:
  assumes "connect_outcome env port = None" and "dumps cd cmd = Inr request"
    and "send_outcome env request = None" and "reply env = Inr ''OK''"
    and "loads cd ''OK'' = Inl e" and "exn_class_of e = JSONDecodeError"
  shows "send_command cd env port cmd = Inr (PDict [(''success'', PBool True)])"
  using assms by (simp add: send_command_cases)

theorem send_command_legacy_ok_witness:
  "connect_outcome (client_ok ''OK'') 50000 = None
   \<and> dumps demo_codec quit_cmd = Inr quit_request
   \<and> send_outcome (client_ok ''OK'') quit_request = None
   \<and> reply (client_ok ''OK'') = Inr ''OK''
   \<and> exn_class_of (Exn JSONDecodeError ''Expecting value: line 1 column 1 (char 0)'')
       = JSONDecodeError
   \<and> send_command demo_codec (client_ok ''OK'') 50000 quit_cmd
       = Inr (PDict [(''success'', PBool True)])"
proof -
  have h1: "connect_outcome (client_ok ''OK'') 50000 = None" by (simp add: client_ok_def)
  have h3: "send_outcome (client_ok ''OK'') quit_request = None" by (simp add: client_ok_def)
  have h4: "reply (client_ok ''OK'') = Inr ''OK''" by (simp add: client_ok_def)
  have h6: "exn_class_of (Exn JSONDecodeError ''Expecting value: line 1 column 1 (char 0)'')
              = JSONDecodeError"
    by simp
  show ?thesis
    using h1 h3 h4 h6 demo_dumps_quit
      send_command_legacy_ok [OF h1 demo_dumps_quit h3 h4 demo_loads_OK h6]
    by simp
qed

end
